theory Spec2Isabelle
  imports Main "HOL-Library.Sublist"
begin

section \<open>JavaScript values, errors and the outside world\<close>

text \<open>
  Configuration objects are plain JavaScript data. Objects are association lists in
  insertion order; numbers are restricted to integers. Functions, symbols and members
  inherited from prototypes are outside the model. Strings are byte lists (UTF-8).
\<close>

datatype jsval =
    JUndefined
  | JNull
  | JBool bool
  | JNum int
  | JStr string
  | JArr "jsval list"
  | JObj "(string \<times> jsval) list"

text \<open>
  A thrown \<open>Error\<close> object: its \<open>message\<close>, the \<open>code\<close> that file-system errors
  carry, and the two fields that \<open>loadJSONConfigFile\<close> adds.
\<close>

record js_error =
  message :: string
  code :: "string option"
  messageTemplate :: "string option"
  messageData :: "(string \<times> string) option"

definition TypeError :: "string \<Rightarrow> js_error" where
  "TypeError m = \<lparr>message = m, code = None, messageTemplate = None, messageData = None\<rparr>"

datatype stats = Stats (isFile: bool)

text \<open>
  Everything \<open>config-file.js\<close> and \<open>clean-env.js\<close> import from Node and from npm
  packages is a field of the world the program runs in: the file system
  (\<open>fs.statSync\<close>, \<open>fs.readFileSync\<close> with encoding utf8), the parsers
  (\<open>yaml.safeLoad\<close>, \<open>JSON.parse\<close>, \<open>strip-json-comments\<close>), the module loader
  \<open>import-fresh\<close>, and the pairs that \<open>dotenv\<close> parses out of the file at a path
  (none when it cannot read the file: \<open>dotenv.config\<close> does not throw).
\<close>

record world =
  statSync :: "string \<Rightarrow> js_error + stats"
  readFileSync :: "string \<Rightarrow> js_error + string"
  safeLoad :: "string \<Rightarrow> js_error + jsval"
  JSON_parse :: "string \<Rightarrow> js_error + jsval"
  stripComments :: "string \<Rightarrow> string"
  importFresh :: "string \<Rightarrow> js_error + jsval"
  dotenv_parsed :: "string \<Rightarrow> (string \<times> string) list"

subsection \<open>Truthiness, property access\<close>

fun truthy :: "jsval \<Rightarrow> bool" where
  "truthy JUndefined = False"
| "truthy JNull = False"
| "truthy (JBool b) = b"
| "truthy (JNum n) = (n \<noteq> 0)"
| "truthy (JStr s) = (s \<noteq> [])"
| "truthy (JArr _) = True"
| "truthy (JObj _) = True"

text \<open>\<open>v == null\<close>: loose equality with null holds for null and undefined only.\<close>

fun eq_null :: "jsval \<Rightarrow> bool" where
  "eq_null JUndefined = True"
| "eq_null JNull = True"
| "eq_null _ = False"

text \<open>
  \<open>v[name]\<close> and \<open>v.name\<close>. Reading a property of null or undefined throws a
  TypeError. The program reads only the names \<open>clean-env\<close>, \<open>dotenv\<close>, \<open>required\<close>,
  \<open>excluded\<close>, \<open>translations\<close> and the five message keys; none of them is a member of
  a primitive, of an array or of \<open>Object.prototype\<close>, so on anything but an object
  with that own key the result is undefined.
\<close>

fun getProp :: "jsval \<Rightarrow> string \<Rightarrow> js_error + jsval" where
  "getProp JUndefined k = Inl (TypeError (''Cannot read property '' @ k @ '' of undefined''))"
| "getProp JNull k = Inl (TypeError (''Cannot read property '' @ k @ '' of null''))"
| "getProp (JObj es) k = Inr (case map_of es k of None \<Rightarrow> JUndefined | Some v \<Rightarrow> v)"
| "getProp _ k = Inr JUndefined"

section \<open>Node's \<open>path\<close> module (POSIX flavour)\<close>

fun split_sep :: "string \<Rightarrow> string list" where
  "split_sep [] = [[]]"
| "split_sep (c # cs) =
     (if c = CHR ''/'' then [] # split_sep cs
      else (case split_sep cs of [] \<Rightarrow> [[c]] | s # ss \<Rightarrow> (c # s) # ss))"

fun join_sep :: "string list \<Rightarrow> string" where
  "join_sep [] = []"
| "join_sep [s] = s"
| "join_sep (s # t # ss) = s @ ''/'' @ join_sep (t # ss)"

text \<open>
  \<open>normalizeString\<close>: empty and \<open>.\<close> segments are dropped, \<open>..\<close> removes the segment
  before it when there is one that is not itself \<open>..\<close>, and is otherwise kept only
  for a relative path.
\<close>

fun normalizeString :: "bool \<Rightarrow> string list \<Rightarrow> string list \<Rightarrow> string list" where
  "normalizeString allowAboveRoot res [] = res"
| "normalizeString allowAboveRoot res (s # ss) =
     normalizeString allowAboveRoot
       (if s = [] \<or> s = ''.'' then res
        else if s = ''..'' then
          (if res \<noteq> [] \<and> last res \<noteq> ''..'' then butlast res
           else if allowAboveRoot then res @ [''..'']
           else res)
        else res @ [s]) ss"

definition isAbsolute :: "string \<Rightarrow> bool" where
  "isAbsolute p = (p \<noteq> [] \<and> hd p = CHR ''/'')"

definition path_normalize :: "string \<Rightarrow> string" where
  "path_normalize p =
     (if p = [] then ''.''
      else
        let trailingSeparator = (last p = CHR ''/'');
            q = join_sep (normalizeString (\<not> isAbsolute p) [] (split_sep p))
        in if q = [] then
             (if isAbsolute p then ''/'' else if trailingSeparator then ''./'' else ''.'')
           else (if isAbsolute p then ''/'' else []) @ q
                @ (if trailingSeparator then ''/'' else []))"

definition path_join :: "string \<Rightarrow> string \<Rightarrow> string" where
  "path_join a b =
     (let joined = join_sep (filter (\<lambda>s. s \<noteq> []) [a, b])
      in if joined = [] then ''.'' else path_normalize joined)"

text \<open>\<open>path.basename\<close> with one argument: the last component, trailing separators ignored.\<close>

definition basename :: "string \<Rightarrow> string" where
  "basename p =
     rev (takeWhile (\<lambda>c. c \<noteq> CHR ''/'') (dropWhile (\<lambda>c. c = CHR ''/'') (rev p)))"

text \<open>
  \<open>path.extname\<close>: from the last dot of the last component to its end; empty when
  there is no dot, when the only dot starts the component, or when the component is \<open>..\<close>.
\<close>

definition extname :: "string \<Rightarrow> string" where
  "extname p =
     (let b = basename p;
          after = rev (takeWhile (\<lambda>c. c \<noteq> CHR ''.'') (rev b))
      in if CHR ''.'' \<notin> set b then []
         else if length after + 1 = length b then []
         else if b = ''..'' then []
         else CHR ''.'' # after)"


section \<open>\<open>lib/config-file.js\<close>\<close>

definition CONFIG_FILES :: "string list" where
  "CONFIG_FILES =
     [''.clean-env.js'', ''.clean-env.yaml'', ''.clean-env.yml'', ''.clean-env.json'',
      ''package.json'']"

subsection \<open>Discovery\<close>

definition isExistingFile :: "world \<Rightarrow> string \<Rightarrow> js_error + bool" where
  "isExistingFile w filename =
     (case statSync w filename of
        Inr st \<Rightarrow> Inr (isFile st)
      | Inl err \<Rightarrow> (if code err = Some ''ENOENT'' then Inr False else Inl err))"

text \<open>
  \<open>Array.prototype.find\<close> with \<open>isExistingFile\<close> as predicate: candidates are tested
  from the left, the first one the predicate accepts is the result, and an exception
  of the predicate ends the search.
\<close>

fun find_file :: "world \<Rightarrow> string list \<Rightarrow> js_error + string option" where
  "find_file w [] = Inr None"
| "find_file w (p # ps) =
     (case isExistingFile w p of
        Inl err \<Rightarrow> Inl err
      | Inr True \<Rightarrow> Inr (Some p)
      | Inr False \<Rightarrow> find_file w ps)"

text \<open>\<open>found || null\<close>: nothing found, or an empty string, is the source's null, \<open>None\<close>.\<close>

definition or_null :: "js_error + string option \<Rightarrow> js_error + string option" where
  "or_null found =
     (case found of
        Inl err \<Rightarrow> Inl err
      | Inr None \<Rightarrow> Inr None
      | Inr (Some p) \<Rightarrow> Inr (if p = [] then None else Some p))"

definition getFilenameForDirectory :: "world \<Rightarrow> string \<Rightarrow> js_error + string option" where
  "getFilenameForDirectory w directory =
     or_null (find_file w (map (\<lambda>filename. path_join directory filename) CONFIG_FILES))"

subsection \<open>Loading\<close>

definition BOM :: string where
  "BOM = [CHR 0xEF, CHR 0xBB, CHR 0xBF]"

text \<open>\<open>readFile\<close>: the contents decoded as utf8, a leading byte-order mark removed.\<close>

definition readFile :: "world \<Rightarrow> string \<Rightarrow> js_error + string" where
  "readFile w filePath =
     (case readFileSync w filePath of
        Inl e \<Rightarrow> Inl e
      | Inr s \<Rightarrow> Inr (if prefix BOM s then drop (length BOM) s else s))"

text \<open>The assignment \<open>e.message = `Cannot read config file: ...`\<close> of every handler.\<close>

definition cannot_read :: "string \<Rightarrow> js_error \<Rightarrow> js_error" where
  "cannot_read filePath e =
     e\<lparr>message := ''Cannot read config file: '' @ filePath @ ''\<newline>Error: '' @ message e\<rparr>"

text \<open>\<open>try { body } catch (e) { handler; throw e }\<close>\<close>

definition try_rethrow :: "js_error + 'a \<Rightarrow> (js_error \<Rightarrow> js_error) \<Rightarrow> js_error + 'a" where
  "try_rethrow body handler = (case body of Inl e \<Rightarrow> Inl (handler e) | Inr v \<Rightarrow> Inr v)"

definition yaml_body :: "world \<Rightarrow> string \<Rightarrow> js_error + jsval" where
  "yaml_body w filePath =
     (case readFile w filePath of
        Inl e \<Rightarrow> Inl e
      | Inr s \<Rightarrow>
          (case safeLoad w s of
             Inl e \<Rightarrow> Inl e
           | Inr v \<Rightarrow> Inr (if truthy v then v else JObj [])))"

definition loadYAMLConfigFile :: "world \<Rightarrow> string \<Rightarrow> js_error + jsval" where
  "loadYAMLConfigFile w filePath = try_rethrow (yaml_body w filePath) (cannot_read filePath)"

definition json_body :: "world \<Rightarrow> string \<Rightarrow> js_error + jsval" where
  "json_body w filePath =
     (case readFile w filePath of
        Inl e \<Rightarrow> Inl e
      | Inr s \<Rightarrow> JSON_parse w (stripComments w s))"

definition loadJSONConfigFile :: "world \<Rightarrow> string \<Rightarrow> js_error + jsval" where
  "loadJSONConfigFile w filePath =
     try_rethrow (json_body w filePath)
       (\<lambda>e. let e' = cannot_read filePath e
            in e'\<lparr>messageTemplate := Some ''failed-to-read-json'',
                  messageData := Some (filePath, message e')\<rparr>)"

definition loadJSConfigFile :: "world \<Rightarrow> string \<Rightarrow> js_error + jsval" where
  "loadJSConfigFile w filePath = try_rethrow (importFresh w filePath) (cannot_read filePath)"

definition package_body :: "world \<Rightarrow> string \<Rightarrow> js_error + jsval" where
  "package_body w filePath =
     (case loadJSONConfigFile w filePath of
        Inl e \<Rightarrow> Inl e
      | Inr v \<Rightarrow>
          (case getProp v ''clean-env'' of
             Inl e \<Rightarrow> Inl e
           | Inr c \<Rightarrow> Inr (if truthy c then c else JNull)))"

definition loadPackageJSONConfigFile :: "world \<Rightarrow> string \<Rightarrow> js_error + jsval" where
  "loadPackageJSONConfigFile w filePath =
     try_rethrow (package_body w filePath) (cannot_read filePath)"

text \<open>The result \<open>JNull\<close> is the early \<open>return null\<close>: no configuration in the manifest.\<close>

definition loadConfigFile :: "world \<Rightarrow> string \<Rightarrow> js_error + jsval" where
  "loadConfigFile w filePath =
     (if extname filePath = ''.js'' then loadJSConfigFile w filePath
      else if extname filePath = ''.json'' then
        (if basename filePath = ''package.json'' then loadPackageJSONConfigFile w filePath
         else loadJSONConfigFile w filePath)
      else if extname filePath = ''.yaml'' \<or> extname filePath = ''.yml'' then
        loadYAMLConfigFile w filePath
      else Inr (JObj []))"

subsection \<open>Defaults and merge\<close>

text \<open>
  Modelled from the spec: \<open>lib/default-config.json\<close> is not among the sources. The
  five message keys are those of the spec's default configuration, in its order; the
  message strings are those of the README.
\<close>

definition DEFAULT_TRANSLATIONS :: "(string \<times> jsval) list" where
  "DEFAULT_TRANSLATIONS =
     [(''missingRequired'',
         JStr ''Clean ENV did not find the following required ENV variables.''),
      (''foundExcluded'',
         JStr ''Clean ENV has found the following excluded ENV variables in the ENV.''),
      (''errorStatement'', JStr ''Your ENV is not in a clean state.''),
      (''errorQuestion'', JStr ''Are you sure you want to continue with the build? (y)''),
      (''yes'', JStr ''y'')]"

text \<open>
  Modelled from the spec: the content of \<open>lib/default-config.json\<close>, which is not among
  the sources, with the fields of the spec's default configuration in its order.
\<close>

definition DEFAULT_CONFIG :: jsval where
  "DEFAULT_CONFIG =
     JObj [(''required'', JArr []),
           (''excluded'', JArr []),
           (''dotenv'', JStr ''.env''),
           (''translations'', JObj DEFAULT_TRANSLATIONS)]"

text \<open>
  Modelled from the spec: the npm package deepmerge is not among the sources; from
  here to \<open>merge\<close> follows what it does when called with its default options. First
  \<open>destination[key] = v\<close>: an existing key keeps its place, a new key goes last.
\<close>

fun put :: "(string \<times> jsval) list \<Rightarrow> string \<Rightarrow> jsval \<Rightarrow> (string \<times> jsval) list" where
  "put [] k v = [(k, v)]"
| "put ((k', v') # es) k v = (if k' = k then (k, v) # es else (k', v') # put es k v)"

fun isMergeableObject :: "jsval \<Rightarrow> bool" where
  "isMergeableObject (JArr _) = True"
| "isMergeableObject (JObj _) = True"
| "isMergeableObject _ = False"

fun digit :: "nat \<Rightarrow> char" where
  "digit n = char_of (48 + n)"

fun show_nat :: "nat \<Rightarrow> string" where
  "show_nat n = (if n < 10 then [digit n] else show_nat (n div 10) @ [digit (n mod 10)])"

text \<open>
  \<open>Object.keys(v)\<close> with the values: the entries of an object, the characters of a
  string under their indices, nothing for the other primitives.
\<close>

fun own_entries :: "jsval \<Rightarrow> (string \<times> jsval) list" where
  "own_entries (JObj es) = es"
| "own_entries (JStr s) = map (\<lambda>i. (show_nat i, JStr [s ! i])) [0..<length s]"
| "own_entries _ = []"

fun has_own :: "jsval \<Rightarrow> string \<Rightarrow> bool" where
  "has_own (JObj es) k = (map_of es k \<noteq> None)"
| "has_own _ k = False"

fun own_value :: "jsval \<Rightarrow> string \<Rightarrow> jsval" where
  "own_value (JObj es) k = (case map_of es k of None \<Rightarrow> JUndefined | Some v \<Rightarrow> v)"
| "own_value _ k = JUndefined"

text \<open>
  Modelled from the spec: \<open>merge\<close> is the npm package deepmerge, which is not among the
  sources. Called with its default options it does what the spec's merge semantics
  describe: when exactly one side is an array the source wins; two arrays are
  concatenated, target first (on the empty default arrays this is replacement by
  the user's array); otherwise the result has the target's keys, then each key of the
  source, merged recursively when the target has the key and the source's value is an
  object or array, and taken from the source when not (as the characters of a string
  source always are). The library clones what it copies; a value is its own clone here.
\<close>

function deepmerge :: "jsval \<Rightarrow> jsval \<Rightarrow> jsval"
  and mergeObject ::
    "jsval \<Rightarrow> (string \<times> jsval) list \<Rightarrow> (string \<times> jsval) list \<Rightarrow> (string \<times> jsval) list"
where
  "deepmerge target (JArr ys) = (case target of JArr xs \<Rightarrow> JArr (xs @ ys) | _ \<Rightarrow> JArr ys)"
| "deepmerge target (JObj es) =
     (case target of
        JArr _ \<Rightarrow> JObj es
      | _ \<Rightarrow> JObj (mergeObject target (own_entries target) es))"
| "deepmerge target (JStr s) =
     (case target of
        JArr _ \<Rightarrow> JStr s
      | _ \<Rightarrow> JObj (fold (\<lambda>(key, v) destination. put destination key v)
                      (own_entries (JStr s)) (own_entries target)))"
| "deepmerge target (JNum n) =
     (case target of JArr _ \<Rightarrow> JNum n | _ \<Rightarrow> JObj (own_entries target))"
| "deepmerge target (JBool b) =
     (case target of JArr _ \<Rightarrow> JBool b | _ \<Rightarrow> JObj (own_entries target))"
| "deepmerge target JNull =
     (case target of JArr _ \<Rightarrow> JNull | _ \<Rightarrow> JObj (own_entries target))"
| "deepmerge target JUndefined =
     (case target of JArr _ \<Rightarrow> JUndefined | _ \<Rightarrow> JObj (own_entries target))"
| "mergeObject target destination [] = destination"
| "mergeObject target destination ((key, v) # es) =
     mergeObject target
       (put destination key
          (if has_own target key \<and> isMergeableObject v
           then deepmerge (own_value target key) v
           else v))
       es"
  by pat_completeness auto
termination
  by (relation "measure (\<lambda>x. case x of
                    Inl (t, s) \<Rightarrow> size s
                  | Inr (t, d, es) \<Rightarrow> size_list (size_prod (\<lambda>_. 0) size) es)") auto

text \<open>
  Modelled from the spec: the call \<open>merge(x, y)\<close> of deepmerge. When \<open>x\<close> is not an
  array, the keys of \<open>y\<close> are taken, which throws for null and undefined.
\<close>

definition merge :: "jsval \<Rightarrow> jsval \<Rightarrow> js_error + jsval" where
  "merge x y =
     (if eq_null y \<and> (case x of JArr _ \<Rightarrow> False | _ \<Rightarrow> True)
      then Inl (TypeError ''Cannot convert undefined or null to object'')
      else Inr (deepmerge x y))"

subsection \<open>Public interface\<close>

definition getConfig :: "world \<Rightarrow> string \<Rightarrow> js_error + jsval" where
  "getConfig w directory =
     (case getFilenameForDirectory w directory of
        Inl e \<Rightarrow> Inl e
      | Inr None \<Rightarrow> Inr DEFAULT_CONFIG
      | Inr (Some configFile) \<Rightarrow>
          (case loadConfigFile w configFile of
             Inl e \<Rightarrow> Inl e
           | Inr loadedConfig \<Rightarrow>
               (if \<not> eq_null loadedConfig then merge DEFAULT_CONFIG loadedConfig
                else Inr DEFAULT_CONFIG)))"

section \<open>\<open>bin/clean-env.js\<close>\<close>

text \<open>
  \<open>process.env\<close> maps variable names to strings; reading a name that is not set gives
  undefined. A property key that is not a string is converted to one.
\<close>

type_synonym env = "string \<rightharpoonup> string"
















section \<open>Notions used in the statements\<close>

text \<open>A file name proper: not empty, no separator, neither \<open>.\<close> nor \<open>..\<close>.\<close>

definition plain :: "string \<Rightarrow> bool" where
  "plain f = (f \<noteq> [] \<and> CHR ''/'' \<notin> set f \<and> f \<noteq> ''.'' \<and> f \<noteq> ''..'')"

text \<open>
  What is on disk at a path: a regular file; or no regular file, when there is
  nothing (\<open>stat\<close> fails with ENOENT) or something else, such as a directory.
\<close>

definition is_file_at :: "world \<Rightarrow> string \<Rightarrow> bool" where
  "is_file_at w p = (case statSync w p of Inl err \<Rightarrow> False | Inr st \<Rightarrow> isFile st)"

definition no_file_at :: "world \<Rightarrow> string \<Rightarrow> bool" where
  "no_file_at w p =
     (case statSync w p of Inl err \<Rightarrow> code err = Some ''ENOENT'' | Inr st \<Rightarrow> \<not> isFile st)"



text \<open>
  The candidate \<open>f\<close> of \<open>directory\<close> holds the configuration \<open>c\<close> in the format that
  goes with its name: a script exporting \<open>c\<close>, a YAML or JSON text that parses to \<open>c\<close>,
  or a manifest that parses to an object with \<open>c\<close> under \<open>clean-env\<close>.
\<close>

definition candidate_holds :: "world \<Rightarrow> string \<Rightarrow> string \<Rightarrow> jsval \<Rightarrow> bool" where
  "candidate_holds w directory f c =
     (let p = path_join directory f in
      if f = ''.clean-env.js'' then importFresh w p = Inr c
      else if f = ''.clean-env.yaml'' \<or> f = ''.clean-env.yml'' then
        (case readFile w p of Inl e \<Rightarrow> False | Inr s \<Rightarrow> safeLoad w s = Inr c)
      else if f = ''.clean-env.json'' then
        (case readFile w p of
           Inl e \<Rightarrow> False
         | Inr s \<Rightarrow> JSON_parse w (stripComments w s) = Inr c)
      else if f = ''package.json'' then
        (case readFile w p of
           Inl e \<Rightarrow> False
         | Inr s \<Rightarrow>
             (case JSON_parse w (stripComments w s) of
                Inr (JObj es) \<Rightarrow> map_of es ''clean-env'' = Some c
              | _ \<Rightarrow> False))
      else False)"

text \<open>
  The manifest read as the spec words it: the text parsed as strict JSON, that is
  by \<open>JSON.parse\<close> alone, then the value under \<open>clean-env\<close>, null when there is none.
\<close>

definition strict_manifest_field :: "world \<Rightarrow> string \<Rightarrow> js_error + jsval" where
  "strict_manifest_field w filePath =
     (case readFile w filePath of
        Inl e \<Rightarrow> Inl e
      | Inr s \<Rightarrow>
          (case JSON_parse w s of
             Inl e \<Rightarrow> Inl e
           | Inr v \<Rightarrow>
               (case getProp v ''clean-env'' of
                  Inl e \<Rightarrow> Inl e
                | Inr c \<Rightarrow> Inr (if truthy c then c else JNull))))"




section \<open>Example worlds\<close>

definition ENOENT :: js_error where
  "ENOENT = \<lparr>message = ''ENOENT: no such file or directory'', code = Some ''ENOENT'',
             messageTemplate = None, messageData = None\<rparr>"

definition EACCES :: js_error where
  "EACCES = \<lparr>message = ''EACCES: permission denied'', code = Some ''EACCES'',
             messageTemplate = None, messageData = None\<rparr>"

definition SyntaxError :: js_error where
  "SyntaxError = \<lparr>message = ''Unexpected end of JSON input'', code = None,
                  messageTemplate = None, messageData = None\<rparr>"

definition YAMLException :: js_error where
  "YAMLException = \<lparr>message = ''bad indentation of a mapping entry'', code = None,
                    messageTemplate = None, messageData = None\<rparr>"

definition MODULE_NOT_FOUND :: js_error where
  "MODULE_NOT_FOUND = \<lparr>message = ''Cannot find module'', code = Some ''MODULE_NOT_FOUND'',
                       messageTemplate = None, messageData = None\<rparr>"

text \<open>
  A world given by tables: the regular files with their contents, the documents the
  YAML and the JSON parser yield for the texts they accept, and what the scripts
  export. Nothing else exists, parses or loads; comments are not stripped; \<open>dotenv\<close>
  finds nothing.
\<close>

definition example_world ::
  "(string \<times> string) list \<Rightarrow> (string \<times> jsval) list \<Rightarrow> (string \<times> jsval) list
   \<Rightarrow> (string \<times> jsval) list \<Rightarrow> world" where
  "example_world files yaml json scripts =
     \<lparr>statSync = (\<lambda>p. case map_of files p of None \<Rightarrow> Inl ENOENT | Some s \<Rightarrow> Inr (Stats True)),
      readFileSync = (\<lambda>p. case map_of files p of None \<Rightarrow> Inl ENOENT | Some s \<Rightarrow> Inr s),
      safeLoad = (\<lambda>s. case map_of yaml s of None \<Rightarrow> Inl YAMLException | Some v \<Rightarrow> Inr v),
      JSON_parse = (\<lambda>s. case map_of json s of None \<Rightarrow> Inl SyntaxError | Some v \<Rightarrow> Inr v),
      stripComments = (\<lambda>s. s),
      importFresh =
        (\<lambda>p. case map_of scripts p of None \<Rightarrow> Inl MODULE_NOT_FOUND | Some v \<Rightarrow> Inr v),
      dotenv_parsed = (\<lambda>p. [])\<rparr>"

text \<open>A world in which one more path is a directory, or in which \<open>stat\<close> fails at a path.\<close>

definition as_directory :: "string \<Rightarrow> world \<Rightarrow> world" where
  "as_directory d w = w\<lparr>statSync := (\<lambda>p. if p = d then Inr (Stats False) else statSync w p)\<rparr>"

definition stat_failing :: "string \<Rightarrow> js_error \<Rightarrow> world \<Rightarrow> world" where
  "stat_failing d err w = w\<lparr>statSync := (\<lambda>p. if p = d then Inl err else statSync w p)\<rparr>"

text \<open>
  A manifest whose text holds a comment: strict JSON rejects it, while the text
  without the comment, which \<open>strip-json-comments\<close> blanks out, is an empty object.
\<close>

definition commented_manifest :: world where
  "commented_manifest =
     (example_world [(''/app/package.json'', ''{/**/}'')] []
        [(''{}'', JObj []), (''{    }'', JObj [])] [])
     \<lparr>stripComments := (\<lambda>s. if s = ''{/**/}'' then ''{    }'' else s)\<rparr>"

text \<open>
  The configuration \<open>{required: [X]}\<close> in each of the five formats, each in a
  project of its own; \<open>dq\<close> is the double quote.
\<close>

definition dq :: string where
  "dq = [CHR 0x22]"

definition only_required_X :: jsval where
  "only_required_X = JObj [(''required'', JArr [JStr ''X''])]"

definition json_text :: string where
  "json_text = ''{'' @ dq @ ''required'' @ dq @ '': ['' @ dq @ ''X'' @ dq @ '']}''"

definition manifest_text :: string where
  "manifest_text = ''{'' @ dq @ ''clean-env'' @ dq @ '': '' @ json_text @ ''}''"

definition script_project :: world where
  "script_project =
     example_world [(''/app/.clean-env.js'', ''module.exports = '' @ json_text)] [] []
       [(''/app/.clean-env.js'', only_required_X)]"

definition yaml_project :: world where
  "yaml_project =
     example_world [(''/app/.clean-env.yaml'', ''required: [X]'')]
       [(''required: [X]'', only_required_X)] [] []"

definition yml_project :: world where
  "yml_project =
     example_world [(''/app/.clean-env.yml'', ''required: [X]'')]
       [(''required: [X]'', only_required_X)] [] []"

definition json_project :: world where
  "json_project =
     example_world [(''/app/.clean-env.json'', json_text)] []
       [(json_text, only_required_X)] []"

definition manifest_project :: world where
  "manifest_project =
     example_world [(''/app/package.json'', manifest_text)] []
       [(manifest_text, JObj [(''name'', JStr ''app''), (''clean-env'', only_required_X)])] []"

text \<open>A project whose YAML configuration overrides one message.\<close>

definition override_project :: world where
  "override_project =
     example_world [(''/app/.clean-env.yml'', ''translations: {errorStatement: Unclean}'')]
       [(''translations: {errorStatement: Unclean}'',
         JObj [(''translations'', JObj [(''errorStatement'', JStr ''Unclean'')])])] [] []"

text \<open>A manifest with an empty object under \<open>clean-env\<close>.\<close>

definition empty_field_text :: string where
  "empty_field_text = ''{'' @ dq @ ''clean-env'' @ dq @ '': {}}''"

definition empty_field_project :: world where
  "empty_field_project =
     example_world [(''/app/package.json'', empty_field_text)] []
       [(empty_field_text, JObj [(''clean-env'', JObj [])])] []"





section \<open>Paths of the candidates\<close>

lemma split_sep_nonempty: "split_sep p \<noteq> []"
  by (induction p) (auto split: list.splits)

lemma split_sep_plain: "CHR ''/'' \<notin> set f \<Longrightarrow> split_sep f = [f]"
  by (induction f) auto

lemma split_sep_append:
  "CHR ''/'' \<notin> set f \<Longrightarrow> split_sep (d @ CHR ''/'' # f) = split_sep d @ [f]"
  by (induction d) (auto simp: split_sep_plain split_sep_nonempty split: list.splits)

lemma normalizeString_snoc:
  "f \<noteq> [] \<Longrightarrow> f \<noteq> ''.'' \<Longrightarrow> f \<noteq> ''..'' \<Longrightarrow>
   normalizeString a res (ss @ [f]) = normalizeString a res ss @ [f]"
  by (induction ss arbitrary: res) auto

lemma join_sep_snoc:
  "join_sep (xs @ [f]) = (if xs = [] then f else join_sep xs @ ''/'' @ f)"
  by (induction xs rule: join_sep.induct) auto

lemma path_join_ends:
  assumes "plain f"
  shows "\<exists>pre. path_join d f = pre @ f \<and> (pre = [] \<or> last pre = CHR ''/'')"
proof -
  from assms have f: "f \<noteq> []" "CHR ''/'' \<notin> set f" "f \<noteq> ''.''" "f \<noteq> ''..''"
    by (auto simp: plain_def)
  define joined where "joined = (if d = [] then f else d @ CHR ''/'' # f)"
  have j: "join_sep (filter (\<lambda>s. s \<noteq> []) [d, f]) = joined"
    using f by (simp add: joined_def)
  have ne: "joined \<noteq> []" using f by (simp add: joined_def)
  have "last f \<in> set f" using f by simp
  then have "last f \<noteq> CHR ''/''" using f by metis
  then have lst: "last joined \<noteq> CHR ''/''"
    using f by (simp add: joined_def)
  have sp: "\<exists>ss. split_sep joined = ss @ [f]"
    using f by (auto simp: joined_def split_sep_plain split_sep_append intro: exI[of _ "[]"])
  then obtain ss where ss: "split_sep joined = ss @ [f]" by blast
  have q: "\<And>res. join_sep (res @ [f]) \<noteq> []"
    using f by (simp add: join_sep_snoc)
  have pj: "path_join d f = path_normalize joined"
    unfolding path_join_def j using ne by simp
  show ?thesis
  proof (cases "isAbsolute joined")
    case True
    define res where "res = normalizeString False [] ss"
    have n: "normalizeString False [] (split_sep joined) = res @ [f]"
      using f by (simp add: ss res_def normalizeString_snoc)
    have "path_join d f = ''/'' @ join_sep (res @ [f])"
      using ne lst q[of res] True by (simp add: pj path_normalize_def n)
    then show ?thesis
      by (cases "res = []") (auto simp: join_sep_snoc intro: exI[of _ "''/''"]
            exI[of _ "''/'' @ join_sep res @ ''/''"])
  next
    case False
    define res where "res = normalizeString True [] ss"
    have n: "normalizeString True [] (split_sep joined) = res @ [f]"
      using f by (simp add: ss res_def normalizeString_snoc)
    have "path_join d f = join_sep (res @ [f])"
      using ne lst q[of res] False by (simp add: pj path_normalize_def n)
    then show ?thesis
      by (cases "res = []") (auto simp: join_sep_snoc intro: exI[of _ "[]"]
            exI[of _ "join_sep res @ ''/''"])
  qed
qed

lemma basename_ends:
  assumes "f \<noteq> []" "CHR ''/'' \<notin> set f" "pre = [] \<or> last pre = CHR ''/''"
  shows "basename (pre @ f) = f"
proof -
  have h: "hd (rev f) \<noteq> CHR ''/''" using assms(1,2)
    by (metis hd_rev last_in_set)
  have d: "dropWhile (\<lambda>c. c = CHR ''/'') (rev f @ rev pre) = rev f @ rev pre"
    using assms(1) h by (cases "rev f") auto
  have t: "takeWhile (\<lambda>c. c \<noteq> CHR ''/'') (rev f @ rev pre) = rev f"
  proof (cases "pre = []")
    case True
    then show ?thesis using assms(2) by (auto simp: takeWhile_eq_all_conv)
  next
    case False
    with assms(3) have "hd (rev pre) = CHR ''/''" by (simp add: hd_rev)
    moreover have "rev pre \<noteq> []" using False by simp
    ultimately show ?thesis using assms(2)
      by (cases "rev pre") (auto simp: takeWhile_tail takeWhile_eq_all_conv)
  qed
  show ?thesis by (simp add: basename_def d t)
qed

lemma basename_path_join: "plain f \<Longrightarrow> basename (path_join d f) = f"
proof -
  assume p: "plain f"
  then obtain pre where "path_join d f = pre @ f" "pre = [] \<or> last pre = CHR ''/''"
    using path_join_ends by blast
  then show ?thesis using p basename_ends[of f pre] by (simp add: plain_def)
qed

lemma basename_plain: "plain f \<Longrightarrow> basename f = f"
  using basename_ends[of f "[]"] by (simp add: plain_def)

lemma extname_path_join: "plain f \<Longrightarrow> extname (path_join d f) = extname f"
  by (simp add: extname_def basename_path_join basename_plain)

lemma path_join_nonempty: "plain f \<Longrightarrow> path_join d f \<noteq> []"
  using path_join_ends[of f d] by (auto simp: plain_def)

lemma plain_candidates: "f \<in> set CONFIG_FILES \<Longrightarrow> plain f"
  by (auto simp: CONFIG_FILES_def plain_def)

lemma extname_candidates:
  "extname ''.clean-env.js'' = ''.js''"
  "extname ''.clean-env.yaml'' = ''.yaml''"
  "extname ''.clean-env.yml'' = ''.yml''"
  "extname ''.clean-env.json'' = ''.json''"
  "extname ''package.json'' = ''.json''"
  by (simp_all add: extname_def basename_def)

section \<open>Discovery\<close>

lemma isExistingFile_no_file: "no_file_at w p \<Longrightarrow> isExistingFile w p = Inr False"
  by (auto simp: no_file_at_def isExistingFile_def split: sum.splits)

lemma isExistingFile_is_file: "is_file_at w p \<Longrightarrow> isExistingFile w p = Inr True"
  by (auto simp: is_file_at_def isExistingFile_def split: sum.splits)

lemma find_file_skip:
  "\<forall>p\<in>set ps. no_file_at w p \<Longrightarrow> find_file w (ps @ qs) = find_file w qs"
  by (induction ps) (simp_all add: isExistingFile_no_file)

lemma find_file_none: "\<forall>p\<in>set ps. no_file_at w p \<Longrightarrow> find_file w ps = Inr None"
  using find_file_skip[of ps w "[]"] by simp

lemma find_file_find:
  "\<forall>p\<in>set ps. is_file_at w p \<or> no_file_at w p \<Longrightarrow>
   find_file w ps = Inr (List.find (is_file_at w) ps)"
proof (induction ps)
  case Nil
  then show ?case by simp
next
  case (Cons p ps)
  show ?case
  proof (cases "is_file_at w p")
    case True
    then show ?thesis by (simp add: isExistingFile_is_file)
  next
    case False
    with Cons.prems have "no_file_at w p" by simp
    with False Cons show ?thesis by (simp add: isExistingFile_no_file)
  qed
qed

lemma find_Some_nonempty:
  "List.find P (map (path_join d) CONFIG_FILES) = Some p \<Longrightarrow> p \<noteq> []"
  by (auto simp: find_Some_iff path_join_nonempty plain_candidates)

lemma or_null_candidates:
  "or_null (Inr (List.find P (map (path_join d) CONFIG_FILES)))
   = Inr (List.find P (map (path_join d) CONFIG_FILES))"
  by (cases "List.find P (map (path_join d) CONFIG_FILES)")
     (auto simp: or_null_def dest: find_Some_nonempty)

lemma getFilename_none:
  "\<forall>f\<in>set CONFIG_FILES. no_file_at w (path_join d f) \<Longrightarrow>
   getFilenameForDirectory w d = Inr None"
  by (simp add: getFilenameForDirectory_def find_file_none or_null_def)

text \<open>
  C1: when none of the five candidates is a regular file of the directory,
  \<open>getConfig\<close> raises nothing and returns exactly the default configuration: no
  required and no excluded names, \<open>.env\<close> as dotenv file, and the five default messages.
\<close>

theorem getConfig_without_candidate:
  assumes "\<forall>f\<in>set CONFIG_FILES. no_file_at w (path_join directory f)"
  shows "getConfig w directory =
           Inr (JObj [(''required'', JArr []),
                      (''excluded'', JArr []),
                      (''dotenv'', JStr ''.env''),
                      (''translations'', JObj
                         [(''missingRequired'',
                             JStr ''Clean ENV did not find the following required ENV variables.''),
                          (''foundExcluded'',
                             JStr ''Clean ENV has found the following excluded ENV variables in the ENV.''),
                          (''errorStatement'', JStr ''Your ENV is not in a clean state.''),
                          (''errorQuestion'',
                             JStr ''Are you sure you want to continue with the build? (y)''),
                          (''yes'', JStr ''y'')])])"
  using assms
  by (simp add: getConfig_def getFilename_none DEFAULT_CONFIG_def DEFAULT_TRANSLATIONS_def)

theorem getConfig_without_candidate_witness:
  "list_all
     (\<lambda>f. no_file_at (example_world [(''/app/README.md'', ''# app'')] [] [] [])
            (path_join ''/app'' f))
     CONFIG_FILES
   \<and> getConfig (example_world [(''/app/README.md'', ''# app'')] [] [] []) ''/app''
       = Inr DEFAULT_CONFIG"
proof -
  have h: "\<forall>f\<in>set CONFIG_FILES.
      no_file_at (example_world [(''/app/README.md'', ''# app'')] [] [] []) (path_join ''/app'' f)"
    by code_simp
  show ?thesis
    using h getConfig_without_candidate [OF h]
    by (simp add: DEFAULT_CONFIG_def DEFAULT_TRANSLATIONS_def list_all_iff)
qed

text \<open>
  C2: the candidates are tried in the order \<open>.clean-env.js\<close>, \<open>.clean-env.yaml\<close>,
  \<open>.clean-env.yml\<close>, \<open>.clean-env.json\<close>, \<open>package.json\<close>; whatever subset of them
  is on disk as regular files, the path selected is the first candidate in that
  order that is a regular file of the directory, and none when there is no such
  candidate.
\<close>

theorem discovery_first_match:
  "CONFIG_FILES =
     [''.clean-env.js'', ''.clean-env.yaml'', ''.clean-env.yml'', ''.clean-env.json'',
      ''package.json'']
   \<and> ((\<forall>f\<in>set CONFIG_FILES.
          is_file_at w (path_join directory f) \<or> no_file_at w (path_join directory f))
        \<longrightarrow> getFilenameForDirectory w directory =
              Inr (List.find (is_file_at w) (map (path_join directory) CONFIG_FILES)))"
proof (intro conjI impI)
  show "CONFIG_FILES =
     [''.clean-env.js'', ''.clean-env.yaml'', ''.clean-env.yml'', ''.clean-env.json'',
      ''package.json'']" by (simp add: CONFIG_FILES_def)
next
  assume "\<forall>f\<in>set CONFIG_FILES.
          is_file_at w (path_join directory f) \<or> no_file_at w (path_join directory f)"
  then have "find_file w (map (path_join directory) CONFIG_FILES)
             = Inr (List.find (is_file_at w) (map (path_join directory) CONFIG_FILES))"
    by (intro find_file_find) auto
  then show "getFilenameForDirectory w directory =
              Inr (List.find (is_file_at w) (map (path_join directory) CONFIG_FILES))"
    by (simp add: getFilenameForDirectory_def or_null_candidates)
qed

theorem discovery_first_match_witness:
  "list_all
     (\<lambda>f. is_file_at
             (example_world [(''/app/package.json'', ''{}''), (''/app/.clean-env.yml'', [])]
                [] [] [])
             (path_join ''/app'' f)
          \<or> no_file_at
             (example_world [(''/app/package.json'', ''{}''), (''/app/.clean-env.yml'', [])]
                [] [] [])
             (path_join ''/app'' f))
     CONFIG_FILES
   \<and> getFilenameForDirectory
         (example_world [(''/app/package.json'', ''{}''), (''/app/.clean-env.yml'', [])] [] [] [])
         ''/app''
       = Inr (Some ''/app/.clean-env.yml'')"
proof -
  let ?w = "example_world [(''/app/package.json'', ''{}''), (''/app/.clean-env.yml'', [])]
              [] [] []"
  have h: "\<forall>f\<in>set CONFIG_FILES.
      is_file_at ?w (path_join ''/app'' f) \<or> no_file_at ?w (path_join ''/app'' f)"
    by code_simp
  have f: "List.find (is_file_at ?w) (map (path_join ''/app'') CONFIG_FILES)
           = Some ''/app/.clean-env.yml''"
    by code_simp
  show ?thesis
    using h f discovery_first_match [of ?w "''/app''"] by (simp add: list_all_iff)
qed

section \<open>Discovery of what is not a file, and failing \<open>stat\<close>\<close>

lemma getConfig_discovery_error:
  "getFilenameForDirectory w d = Inl err \<Longrightarrow> getConfig w d = Inl err"
  by (simp add: getConfig_def)

text \<open>
  C10: when the candidates before \<open>f\<close> are not regular files, then a candidate \<open>f\<close>
  that is on disk without being a regular file (a directory, say) counts as not
  existing and discovery goes on with the candidates after it; and a \<open>stat\<close> of \<open>f\<close>
  failing with a code other than ENOENT is the error that discovery and \<open>getConfig\<close>
  raise.
\<close>

theorem discovery_non_file_and_stat_error:
  assumes "CONFIG_FILES = before @ f # after"
    and "\<forall>g\<in>set before. no_file_at w (path_join directory g)"
  shows "(statSync w (path_join directory f) = Inr (Stats False) \<longrightarrow>
            isExistingFile w (path_join directory f) = Inr False
            \<and> getFilenameForDirectory w directory
                = or_null (find_file w (map (path_join directory) after)))
       \<and> (statSync w (path_join directory f) = Inl err \<and> code err \<noteq> Some ''ENOENT'' \<longrightarrow>
            isExistingFile w (path_join directory f) = Inl err
            \<and> getFilenameForDirectory w directory = Inl err
            \<and> getConfig w directory = Inl err)"
proof -
  have skip: "find_file w (map (path_join directory) CONFIG_FILES)
              = find_file w (path_join directory f # map (path_join directory) after)"
    unfolding assms(1) using assms(2) find_file_skip[of "map (path_join directory) before" w]
    by simp
  show ?thesis
  proof (intro conjI impI)
    assume st: "statSync w (path_join directory f) = Inr (Stats False)"
    then show ex: "isExistingFile w (path_join directory f) = Inr False"
      by (simp add: isExistingFile_def)
    show "getFilenameForDirectory w directory
            = or_null (find_file w (map (path_join directory) after))"
      by (simp add: getFilenameForDirectory_def skip ex)
  next
    assume st: "statSync w (path_join directory f) = Inl err \<and> code err \<noteq> Some ''ENOENT''"
    then show ex: "isExistingFile w (path_join directory f) = Inl err"
      by (simp add: isExistingFile_def)
    show g: "getFilenameForDirectory w directory = Inl err"
      by (simp add: getFilenameForDirectory_def skip ex or_null_def)
    show "getConfig w directory = Inl err"
      using g by (rule getConfig_discovery_error)
  qed
qed

theorem discovery_non_file_and_stat_error_witness:
  "CONFIG_FILES = [''.clean-env.js''] @ ''.clean-env.yaml'' # [''.clean-env.yml'', ''.clean-env.json'', ''package.json'']
   \<and> getFilenameForDirectory
        (as_directory ''/app/.clean-env.yaml''
           (example_world [(''/app/.clean-env.json'', ''{}'')] [] [(''{}'', JObj [])] []))
        ''/app''
      = Inr (Some ''/app/.clean-env.json'')
   \<and> getConfig
        (stat_failing ''/app/.clean-env.yaml'' EACCES
           (example_world [(''/app/.clean-env.json'', ''{}'')] [] [(''{}'', JObj [])] []))
        ''/app''
      = Inl EACCES"
proof -
  let ?w = "example_world [(''/app/.clean-env.json'', ''{}'')] [] [(''{}'', JObj [])] []"
  let ?w1 = "as_directory ''/app/.clean-env.yaml'' ?w"
  let ?w2 = "stat_failing ''/app/.clean-env.yaml'' EACCES ?w"
  have c: "CONFIG_FILES = [''.clean-env.js''] @ ''.clean-env.yaml''
             # [''.clean-env.yml'', ''.clean-env.json'', ''package.json'']"
    by (simp add: CONFIG_FILES_def)
  have b1: "\<forall>g\<in>set [''.clean-env.js'']. no_file_at ?w1 (path_join ''/app'' g)"
    by code_simp
  have b2: "\<forall>g\<in>set [''.clean-env.js'']. no_file_at ?w2 (path_join ''/app'' g)"
    by code_simp
  have s1: "statSync ?w1 (path_join ''/app'' ''.clean-env.yaml'') = Inr (Stats False)"
    by code_simp
  have s2: "statSync ?w2 (path_join ''/app'' ''.clean-env.yaml'') = Inl EACCES
            \<and> code EACCES \<noteq> Some ''ENOENT''"
    by code_simp
  have r: "or_null (find_file ?w1 (map (path_join ''/app'')
             [''.clean-env.yml'', ''.clean-env.json'', ''package.json'']))
           = Inr (Some ''/app/.clean-env.json'')"
    by code_simp
  show ?thesis
    using c r s1 s2
      discovery_non_file_and_stat_error [OF c b1, of EACCES]
      discovery_non_file_and_stat_error [OF c b2, of EACCES]
    by simp
qed

section \<open>Failures while loading\<close>




lemma loadJSON_success: "json_body w p = Inr v \<Longrightarrow> loadJSONConfigFile w p = Inr v"
  by (simp add: loadJSONConfigFile_def try_rethrow_def)





section \<open>Loading and merging\<close>

lemma map_of_put: "map_of (put es k v) = (map_of es)(k \<mapsto> v)"
  by (induction es) (auto simp: fun_eq_iff)

lemma keys_put:
  "map fst (put es k v) = (if k \<in> fst ` set es then map fst es else map fst es @ [k])"
  by (induction es) force+

lemma plain_each:
  "plain ''.clean-env.js''" "plain ''.clean-env.yaml''" "plain ''.clean-env.yml''"
  "plain ''.clean-env.json''" "plain ''package.json''"
  by (simp_all add: plain_def)

lemma extname_joined:
  "extname (path_join d ''.clean-env.js'') = ''.js''"
  "extname (path_join d ''.clean-env.yaml'') = ''.yaml''"
  "extname (path_join d ''.clean-env.yml'') = ''.yml''"
  "extname (path_join d ''.clean-env.json'') = ''.json''"
  "extname (path_join d ''package.json'') = ''.json''"
  by (simp_all only: extname_path_join plain_each extname_candidates)

lemma basename_joined:
  "basename (path_join d ''.clean-env.json'') = ''.clean-env.json''"
  "basename (path_join d ''package.json'') = ''package.json''"
  by (simp_all only: basename_path_join plain_each)

lemma dispatch_candidates:
  "loadConfigFile w (path_join d ''.clean-env.js'') = loadJSConfigFile w (path_join d ''.clean-env.js'')"
  "loadConfigFile w (path_join d ''.clean-env.yaml'') = loadYAMLConfigFile w (path_join d ''.clean-env.yaml'')"
  "loadConfigFile w (path_join d ''.clean-env.yml'') = loadYAMLConfigFile w (path_join d ''.clean-env.yml'')"
  "loadConfigFile w (path_join d ''.clean-env.json'') = loadJSONConfigFile w (path_join d ''.clean-env.json'')"
  "loadConfigFile w (path_join d ''package.json'')
     = loadPackageJSONConfigFile w (path_join d ''package.json'')"
  unfolding loadConfigFile_def extname_joined basename_joined by simp_all

lemma load_holds:
  assumes "f \<in> set CONFIG_FILES" "candidate_holds w d f c" "truthy c"
  shows "loadConfigFile w (path_join d f) = Inr c"
proof -
  from assms(1) have "f = ''.clean-env.js'' \<or> f = ''.clean-env.yaml''
    \<or> f = ''.clean-env.yml'' \<or> f = ''.clean-env.json'' \<or> f = ''package.json''"
    unfolding CONFIG_FILES_def by simp
  then consider "f = ''.clean-env.js''" | "f = ''.clean-env.yaml''"
    | "f = ''.clean-env.yml''" | "f = ''.clean-env.json''" | "f = ''package.json''"
    by blast
  then show ?thesis
  proof cases
    case 1
    with assms(2) show ?thesis
      by (simp add: dispatch_candidates candidate_holds_def loadJSConfigFile_def try_rethrow_def)
  next
    case 2
    with assms(2,3) show ?thesis
      by (auto simp: dispatch_candidates candidate_holds_def loadYAMLConfigFile_def
            yaml_body_def try_rethrow_def split: sum.splits)
  next
    case 3
    with assms(2,3) show ?thesis
      by (auto simp: dispatch_candidates candidate_holds_def loadYAMLConfigFile_def
            yaml_body_def try_rethrow_def split: sum.splits)
  next
    case 4
    with assms(2) show ?thesis
      by (auto simp: dispatch_candidates candidate_holds_def loadJSONConfigFile_def
            json_body_def try_rethrow_def split: sum.splits)
  next
    case 5
    with assms(2,3) show ?thesis
      by (auto simp: dispatch_candidates candidate_holds_def loadPackageJSONConfigFile_def
            package_body_def loadJSONConfigFile_def
            json_body_def try_rethrow_def split: sum.splits jsval.splits)
  qed
qed

lemma getConfig_loaded:
  assumes "getFilenameForDirectory w d = Inr (Some p)" "loadConfigFile w p = Inr c"
    "\<not> eq_null c"
  shows "getConfig w d = merge DEFAULT_CONFIG c"
  using assms by (simp add: getConfig_def)

lemma getConfig_loaded_null:
  assumes "getFilenameForDirectory w d = Inr (Some p)" "loadConfigFile w p = Inr c"
    "eq_null c"
  shows "getConfig w d = Inr DEFAULT_CONFIG"
  using assms by (simp add: getConfig_def)

lemma merge_required:
  "merge DEFAULT_CONFIG (JObj [(''required'', JArr [JStr x])])
   = Inr (JObj [(''required'', JArr [JStr x]),
                (''excluded'', JArr []),
                (''dotenv'', JStr ''.env''),
                (''translations'', JObj DEFAULT_TRANSLATIONS)])"
  by (simp add: merge_def DEFAULT_CONFIG_def)

lemma merge_translation:
  "merge DEFAULT_CONFIG (JObj [(''translations'', JObj [(k, v)])])
   = Inr (JObj [(''required'', JArr []),
                (''excluded'', JArr []),
                (''dotenv'', JStr ''.env''),
                (''translations'',
                   JObj (put DEFAULT_TRANSLATIONS k
                          (if has_own (JObj DEFAULT_TRANSLATIONS) k \<and> isMergeableObject v
                           then deepmerge (own_value (JObj DEFAULT_TRANSLATIONS) k) v
                           else v)))])"
  by (simp add: merge_def DEFAULT_CONFIG_def)

lemma merge_empty: "merge DEFAULT_CONFIG (JObj []) = Inr DEFAULT_CONFIG"
  by (simp add: merge_def DEFAULT_CONFIG_def)

text \<open>
  C6: when the selected candidate, in whichever of the five formats, holds a
  configuration with nothing but \<open>required: [x]\<close>, the resolved configuration has
  \<open>required = [x]\<close> and the default \<open>excluded\<close>, \<open>dotenv\<close> and \<open>translations\<close>; when it
  holds nothing but one translations key \<open>k\<close> with value \<open>v\<close>, every other
  translations key keeps its default value, \<open>k\<close> has the value \<open>v\<close> (for a value that
  is not itself an object or array, as a message is), the keys are the five default
  ones when \<open>k\<close> is one of them, and the other fields are the defaults.
\<close>

theorem merge_over_defaults:
  assumes "f \<in> set CONFIG_FILES"
    and "getFilenameForDirectory w directory = Inr (Some (path_join directory f))"
    and "candidate_holds w directory f c"
  shows "(c = JObj [(''required'', JArr [JStr x])] \<longrightarrow>
            getConfig w directory =
              Inr (JObj [(''required'', JArr [JStr x]),
                         (''excluded'', JArr []),
                         (''dotenv'', JStr ''.env''),
                         (''translations'', JObj DEFAULT_TRANSLATIONS)]))
       \<and> (c = JObj [(''translations'', JObj [(k, v)])] \<longrightarrow>
            (\<exists>ts. getConfig w directory =
                    Inr (JObj [(''required'', JArr []),
                               (''excluded'', JArr []),
                               (''dotenv'', JStr ''.env''),
                               (''translations'', JObj ts)])
                \<and> (\<forall>k'. k' \<noteq> k \<longrightarrow> map_of ts k' = map_of DEFAULT_TRANSLATIONS k')
                \<and> (\<not> isMergeableObject v \<longrightarrow> map_of ts k = Some v)
                \<and> (k \<in> fst ` set DEFAULT_TRANSLATIONS \<longrightarrow>
                     map fst ts = map fst DEFAULT_TRANSLATIONS)))"
proof (intro conjI impI)
  assume c: "c = JObj [(''required'', JArr [JStr x])]"
  then have "loadConfigFile w (path_join directory f) = Inr c"
    using assms by (intro load_holds) simp_all
  then have "getConfig w directory = merge DEFAULT_CONFIG c"
    using assms(2) c by (intro getConfig_loaded) simp_all
  then show "getConfig w directory =
              Inr (JObj [(''required'', JArr [JStr x]),
                         (''excluded'', JArr []),
                         (''dotenv'', JStr ''.env''),
                         (''translations'', JObj DEFAULT_TRANSLATIONS)])"
    by (simp add: c merge_required)
next
  assume c: "c = JObj [(''translations'', JObj [(k, v)])]"
  then have "loadConfigFile w (path_join directory f) = Inr c"
    using assms by (intro load_holds) simp_all
  then have "getConfig w directory = merge DEFAULT_CONFIG c"
    using assms(2) c by (intro getConfig_loaded) simp_all
  then have g: "getConfig w directory =
     Inr (JObj [(''required'', JArr []),
                (''excluded'', JArr []),
                (''dotenv'', JStr ''.env''),
                (''translations'',
                   JObj (put DEFAULT_TRANSLATIONS k
                          (if has_own (JObj DEFAULT_TRANSLATIONS) k \<and> isMergeableObject v
                           then deepmerge (own_value (JObj DEFAULT_TRANSLATIONS) k) v
                           else v)))])"
    by (simp only: c merge_translation)
  show "\<exists>ts. getConfig w directory =
                    Inr (JObj [(''required'', JArr []),
                               (''excluded'', JArr []),
                               (''dotenv'', JStr ''.env''),
                               (''translations'', JObj ts)])
                \<and> (\<forall>k'. k' \<noteq> k \<longrightarrow> map_of ts k' = map_of DEFAULT_TRANSLATIONS k')
                \<and> (\<not> isMergeableObject v \<longrightarrow> map_of ts k = Some v)
                \<and> (k \<in> fst ` set DEFAULT_TRANSLATIONS \<longrightarrow>
                     map fst ts = map fst DEFAULT_TRANSLATIONS)"
    unfolding g by (intro exI conjI, rule refl) (simp_all add: map_of_put keys_put)
qed

theorem merge_over_defaults_witness:
  "getConfig script_project ''/app''
     = Inr (JObj [(''required'', JArr [JStr ''X'']), (''excluded'', JArr []),
                  (''dotenv'', JStr ''.env''), (''translations'', JObj DEFAULT_TRANSLATIONS)])
   \<and> getConfig yaml_project ''/app''
     = Inr (JObj [(''required'', JArr [JStr ''X'']), (''excluded'', JArr []),
                  (''dotenv'', JStr ''.env''), (''translations'', JObj DEFAULT_TRANSLATIONS)])
   \<and> getConfig yml_project ''/app''
     = Inr (JObj [(''required'', JArr [JStr ''X'']), (''excluded'', JArr []),
                  (''dotenv'', JStr ''.env''), (''translations'', JObj DEFAULT_TRANSLATIONS)])
   \<and> getConfig json_project ''/app''
     = Inr (JObj [(''required'', JArr [JStr ''X'']), (''excluded'', JArr []),
                  (''dotenv'', JStr ''.env''), (''translations'', JObj DEFAULT_TRANSLATIONS)])
   \<and> getConfig manifest_project ''/app''
     = Inr (JObj [(''required'', JArr [JStr ''X'']), (''excluded'', JArr []),
                  (''dotenv'', JStr ''.env''), (''translations'', JObj DEFAULT_TRANSLATIONS)])
   \<and> (\<exists>ts. getConfig override_project ''/app''
               = Inr (JObj [(''required'', JArr []), (''excluded'', JArr []),
                            (''dotenv'', JStr ''.env''), (''translations'', JObj ts)])
           \<and> map_of ts ''errorStatement'' = Some (JStr ''Unclean'')
           \<and> map_of ts ''missingRequired'' = map_of DEFAULT_TRANSLATIONS ''missingRequired''
           \<and> map_of ts ''foundExcluded'' = map_of DEFAULT_TRANSLATIONS ''foundExcluded''
           \<and> map_of ts ''errorQuestion'' = map_of DEFAULT_TRANSLATIONS ''errorQuestion''
           \<and> map_of ts ''yes'' = map_of DEFAULT_TRANSLATIONS ''yes''
           \<and> map fst ts = map fst DEFAULT_TRANSLATIONS)"
proof -
  have js: "''.clean-env.js'' \<in> set CONFIG_FILES"
      "getFilenameForDirectory script_project ''/app''
         = Inr (Some (path_join ''/app'' ''.clean-env.js''))"
      "candidate_holds script_project ''/app'' ''.clean-env.js'' only_required_X"
    by code_simp+
  have yaml: "''.clean-env.yaml'' \<in> set CONFIG_FILES"
      "getFilenameForDirectory yaml_project ''/app''
         = Inr (Some (path_join ''/app'' ''.clean-env.yaml''))"
      "candidate_holds yaml_project ''/app'' ''.clean-env.yaml'' only_required_X"
    by code_simp+
  have yml: "''.clean-env.yml'' \<in> set CONFIG_FILES"
      "getFilenameForDirectory yml_project ''/app''
         = Inr (Some (path_join ''/app'' ''.clean-env.yml''))"
      "candidate_holds yml_project ''/app'' ''.clean-env.yml'' only_required_X"
    by code_simp+
  have json: "''.clean-env.json'' \<in> set CONFIG_FILES"
      "getFilenameForDirectory json_project ''/app''
         = Inr (Some (path_join ''/app'' ''.clean-env.json''))"
      "candidate_holds json_project ''/app'' ''.clean-env.json'' only_required_X"
    by code_simp+
  have pkg: "''package.json'' \<in> set CONFIG_FILES"
      "getFilenameForDirectory manifest_project ''/app''
         = Inr (Some (path_join ''/app'' ''package.json''))"
      "candidate_holds manifest_project ''/app'' ''package.json'' only_required_X"
    by code_simp+
  have ov: "getFilenameForDirectory override_project ''/app''
         = Inr (Some (path_join ''/app'' ''.clean-env.yml''))"
      "candidate_holds override_project ''/app'' ''.clean-env.yml''
         (JObj [(''translations'', JObj [(''errorStatement'', JStr ''Unclean'')])])"
    by code_simp+
  have k: "''errorStatement'' \<in> fst ` set DEFAULT_TRANSLATIONS"
    by (simp add: DEFAULT_TRANSLATIONS_def)
  have x: "only_required_X = JObj [(''required'', JArr [JStr ''X''])]"
    by (simp add: only_required_X_def)
  note r = merge_over_defaults [THEN conjunct1, THEN mp, OF _ _ _ x]
  note r1 = r [OF js] and r2 = r [OF yaml] and r3 = r [OF yml] and r4 = r [OF json]
    and r5 = r [OF pkg]
  from merge_over_defaults [OF yml(1) ov, THEN conjunct2, THEN mp, OF refl]
  obtain ts where g: "getConfig override_project ''/app''
               = Inr (JObj [(''required'', JArr []), (''excluded'', JArr []),
                            (''dotenv'', JStr ''.env''), (''translations'', JObj ts)])"
    and fr: "\<forall>k'. k' \<noteq> ''errorStatement'' \<longrightarrow> map_of ts k' = map_of DEFAULT_TRANSLATIONS k'"
    and nw: "\<not> isMergeableObject (JStr ''Unclean'')
               \<longrightarrow> map_of ts ''errorStatement'' = Some (JStr ''Unclean'')"
    and ks: "''errorStatement'' \<in> fst ` set DEFAULT_TRANSLATIONS
               \<longrightarrow> map fst ts = map fst DEFAULT_TRANSLATIONS"
    by blast
  have t1: "map_of ts ''errorStatement'' = Some (JStr ''Unclean'')"
    using nw by simp
  have t2: "map_of ts ''missingRequired'' = map_of DEFAULT_TRANSLATIONS ''missingRequired''"
    using fr by simp
  have t3: "map_of ts ''foundExcluded'' = map_of DEFAULT_TRANSLATIONS ''foundExcluded''"
    using fr by simp
  have t4: "map_of ts ''errorQuestion'' = map_of DEFAULT_TRANSLATIONS ''errorQuestion''"
    using fr by simp
  have t5: "map_of ts ''yes'' = map_of DEFAULT_TRANSLATIONS ''yes''"
    using fr by simp
  have t6: "map fst ts = map fst DEFAULT_TRANSLATIONS"
    using ks k by simp
  show ?thesis
    by (intro conjI exI[of _ ts]) (fact r1 r2 r3 r4 r5 g t1 t2 t3 t4 t5 t6)+
qed

text \<open>
  C7: when the selected candidate is \<open>.clean-env.yaml\<close> or \<open>.clean-env.yml\<close> and its
  text is an empty document (the YAML parser yields null or undefined for it), the
  loaded configuration is the empty object, not null or undefined, and \<open>getConfig\<close>
  returns the defaults, the same as for a directory without any candidate.
\<close>

theorem empty_yaml_is_no_configuration:
  assumes "f = ''.clean-env.yaml'' \<or> f = ''.clean-env.yml''"
    and "getFilenameForDirectory w directory = Inr (Some (path_join directory f))"
    and "readFile w (path_join directory f) = Inr s"
    and "safeLoad w s = Inr v"
    and "eq_null v"
    and "\<forall>g\<in>set CONFIG_FILES. no_file_at w' (path_join directory' g)"
  shows "loadConfigFile w (path_join directory f) = Inr (JObj [])
       \<and> getConfig w directory = Inr DEFAULT_CONFIG
       \<and> getConfig w directory = getConfig w' directory'"
proof -
  have nt: "\<not> truthy v" using assms(5) by (cases v) simp_all
  have "loadYAMLConfigFile w (path_join directory f) = Inr (JObj [])"
    using assms(3,4) nt by (simp add: loadYAMLConfigFile_def yaml_body_def try_rethrow_def)
  then have l: "loadConfigFile w (path_join directory f) = Inr (JObj [])"
    using assms(1) by (auto simp: dispatch_candidates)
  then have g: "getConfig w directory = Inr DEFAULT_CONFIG"
    using getConfig_loaded[OF assms(2) l] by (simp add: merge_empty)
  have "getConfig w' directory' = Inr DEFAULT_CONFIG"
    using assms(6) by (simp add: getConfig_def getFilename_none)
  with l g show ?thesis by simp
qed

theorem empty_yaml_is_no_configuration_witness:
  "getFilenameForDirectory
     (example_world [(''/app/.clean-env.yaml'', [])] [([], JUndefined)] [] []) ''/app''
     = Inr (Some (path_join ''/app'' ''.clean-env.yaml''))
   \<and> readFile (example_world [(''/app/.clean-env.yaml'', [])] [([], JUndefined)] [] [])
        (path_join ''/app'' ''.clean-env.yaml'') = Inr []
   \<and> safeLoad (example_world [(''/app/.clean-env.yaml'', [])] [([], JUndefined)] [] []) []
        = Inr JUndefined
   \<and> list_all (\<lambda>g. no_file_at (example_world [] [] [] []) (path_join ''/app'' g)) CONFIG_FILES
   \<and> loadConfigFile (example_world [(''/app/.clean-env.yaml'', [])] [([], JUndefined)] [] [])
        (path_join ''/app'' ''.clean-env.yaml'') = Inr (JObj [])
   \<and> getConfig (example_world [(''/app/.clean-env.yaml'', [])] [([], JUndefined)] [] []) ''/app''
     = Inr DEFAULT_CONFIG
   \<and> getConfig (example_world [(''/app/.clean-env.yaml'', [])] [([], JUndefined)] [] []) ''/app''
     = getConfig (example_world [] [] [] []) ''/app''"
proof -
  let ?w = "example_world [(''/app/.clean-env.yaml'', [])] [([], JUndefined)] [] []"
  have f: "''.clean-env.yaml'' = ''.clean-env.yaml'' \<or> ''.clean-env.yaml'' = ''.clean-env.yml''"
    by simp
  have sel: "getFilenameForDirectory ?w ''/app''
     = Inr (Some (path_join ''/app'' ''.clean-env.yaml''))"
    by code_simp
  have rd: "readFile ?w (path_join ''/app'' ''.clean-env.yaml'') = Inr []"
    by code_simp
  have doc: "safeLoad ?w [] = Inr JUndefined"
    by code_simp
  have nul: "eq_null JUndefined"
    by simp
  have none: "\<forall>g\<in>set CONFIG_FILES. no_file_at (example_world [] [] [] []) (path_join ''/app'' g)"
    by code_simp
  have la: "list_all (\<lambda>g. no_file_at (example_world [] [] [] []) (path_join ''/app'' g))
              CONFIG_FILES"
    using none by (simp add: list_all_iff)
  note c = empty_yaml_is_no_configuration [OF f sel rd doc nul none]
  show ?thesis
    by (intro conjI) (fact sel rd doc la c [THEN conjunct1] c [THEN conjunct2, THEN conjunct1]
          c [THEN conjunct2, THEN conjunct2])+
qed

text \<open>
  C8, amended: the manifest \<open>package.json\<close> is read like a JSON configuration file
  (comments are stripped, then the text is parsed by \<open>JSON.parse\<close>) and the value
  under the key \<open>clean-env\<close> is taken. When the key is absent, nothing is raised, the
  loaded configuration is null and \<open>getConfig\<close> returns the defaults; an object under
  the key, the empty object included, is the loaded configuration (so not null) and is
  merged over the defaults.
\<close>

theorem manifest_key_lookup:
  assumes "getFilenameForDirectory w directory = Inr (Some (path_join directory ''package.json''))"
    and "readFile w (path_join directory ''package.json'') = Inr s"
    and "JSON_parse w (stripComments w s) = Inr (JObj es)"
  shows "(map_of es ''clean-env'' = None \<longrightarrow>
            loadConfigFile w (path_join directory ''package.json'') = Inr JNull
            \<and> getConfig w directory = Inr DEFAULT_CONFIG)
       \<and> (map_of es ''clean-env'' = Some (JObj cs) \<longrightarrow>
            loadConfigFile w (path_join directory ''package.json'') = Inr (JObj cs)
            \<and> getConfig w directory = merge DEFAULT_CONFIG (JObj cs))"
proof -
  have j: "loadJSONConfigFile w (path_join directory ''package.json'') = Inr (JObj es)"
    using assms(2,3) by (simp add: loadJSON_success json_body_def)
  show ?thesis
  proof (intro conjI impI)
    assume "map_of es ''clean-env'' = None"
    then show l: "loadConfigFile w (path_join directory ''package.json'') = Inr JNull"
      using j by (simp add: dispatch_candidates loadPackageJSONConfigFile_def package_body_def
          try_rethrow_def)
    show "getConfig w directory = Inr DEFAULT_CONFIG"
      using getConfig_loaded_null[OF assms(1) l] by simp
  next
    assume "map_of es ''clean-env'' = Some (JObj cs)"
    then show l: "loadConfigFile w (path_join directory ''package.json'') = Inr (JObj cs)"
      using j by (simp add: dispatch_candidates loadPackageJSONConfigFile_def package_body_def
          try_rethrow_def)
    show "getConfig w directory = merge DEFAULT_CONFIG (JObj cs)"
      using getConfig_loaded[OF assms(1) l] by simp
  qed
qed

theorem manifest_key_lookup_witness:
  "getFilenameForDirectory
     (example_world [(''/app/package.json'', ''{}'')] [] [(''{}'', JObj [])] []) ''/app''
     = Inr (Some (path_join ''/app'' ''package.json''))
   \<and> loadConfigFile (example_world [(''/app/package.json'', ''{}'')] [] [(''{}'', JObj [])] [])
        (path_join ''/app'' ''package.json'') = Inr JNull
   \<and> getConfig (example_world [(''/app/package.json'', ''{}'')] [] [(''{}'', JObj [])] []) ''/app''
     = Inr DEFAULT_CONFIG
   \<and> loadConfigFile empty_field_project (path_join ''/app'' ''package.json'') = Inr (JObj [])
   \<and> getConfig empty_field_project ''/app'' = Inr DEFAULT_CONFIG"
proof -
  let ?w = "example_world [(''/app/package.json'', ''{}'')] [] [(''{}'', JObj [])] []"
  have sel: "getFilenameForDirectory ?w ''/app'' = Inr (Some (path_join ''/app'' ''package.json''))"
    by code_simp
  have rd: "readFile ?w (path_join ''/app'' ''package.json'') = Inr ''{}''"
    by code_simp
  have doc: "JSON_parse ?w (stripComments ?w ''{}'') = Inr (JObj [])"
    by code_simp
  have sel': "getFilenameForDirectory empty_field_project ''/app''
     = Inr (Some (path_join ''/app'' ''package.json''))"
    by code_simp
  have rd': "readFile empty_field_project (path_join ''/app'' ''package.json'')
     = Inr empty_field_text"
    by code_simp
  have doc': "JSON_parse empty_field_project (stripComments empty_field_project empty_field_text)
     = Inr (JObj [(''clean-env'', JObj [])])"
    by code_simp
  show ?thesis
    using sel manifest_key_lookup [OF sel rd doc] manifest_key_lookup [OF sel' rd' doc', of "[]"]
    by (simp add: merge_empty)
qed

text \<open>
  C8 as stated fails: the manifest is not parsed as strict JSON. For the manifest
  text \<open>{/**/}\<close> strict JSON parsing raises a syntax error, while the loader finds
  an object without the key and \<open>getConfig\<close> returns the defaults.
\<close>

theorem manifest_not_strict_counterexample:
  "strict_manifest_field commented_manifest ''/app/package.json'' = Inl SyntaxError
   \<and> loadPackageJSONConfigFile commented_manifest ''/app/package.json'' = Inr JNull
   \<and> getConfig commented_manifest ''/app'' = Inr DEFAULT_CONFIG"
  by code_simp

section \<open>The reports and the confirmation\<close>















end
